theory Spec2Isabelle
  imports Main
begin

section \<open>The in-memory cache (MemoryCache)\<close>

text \<open>
  A stored response is a byte sequence; the nil slice and the empty slice are both the
  empty list. Instants are readings of the clock in nanoseconds and a duration is a
  difference of two readings; \<open>time.Since ts\<close> with the clock at \<open>now\<close> is \<open>now - ts\<close>
  (the saturation of a duration at 64 bits, some 292 years, is left out). The zero value
  of an instant, which a Go map returns for a key it does not hold, is \<open>0\<close>.
\<close>

type_synonym bytes = "char list"
type_synonym time = int
type_synonym duration = int

definition time_Since :: "time \<Rightarrow> time \<Rightarrow> duration" where
  "time_Since now t = now - t"

record MemoryCache =
  items :: "string \<rightharpoonup> bytes"
  ts :: "string \<rightharpoonup> time"
  maxTTL :: duration

text \<open>\<open>NewMemoryCache\<close> panics, with the message on the left, unless the TTL is positive.\<close>

definition NewMemoryCache :: "duration \<Rightarrow> string + MemoryCache" where
  "NewMemoryCache ttl =
     (if ttl \<le> 0 then Inl ''maxTTL must be >0''
      else Inr \<lparr>items = Map.empty, ts = Map.empty, maxTTL = ttl\<rparr>)"

definition MemoryCache_Delete :: "string \<Rightarrow> MemoryCache \<Rightarrow> MemoryCache" where
  "MemoryCache_Delete key c =
     c\<lparr>ts := (ts c)(key := None), items := (items c)(key := None)\<rparr>"

text \<open>The first argument of \<open>Set\<close> and \<open>Get\<close> is the clock reading at the call.\<close>

definition MemoryCache_Set :: "time \<Rightarrow> string \<Rightarrow> bytes \<Rightarrow> MemoryCache \<Rightarrow> MemoryCache" where
  "MemoryCache_Set now key resp c =
     c\<lparr>ts := (ts c)(key \<mapsto> now), items := (items c)(key \<mapsto> resp)\<rparr>"

definition MemoryCache_Get :: "time \<Rightarrow> string \<Rightarrow> MemoryCache \<Rightarrow> (bytes \<times> bool) \<times> MemoryCache" where
  "MemoryCache_Get now key c =
     (let (resp, ok) = (case items c key of None \<Rightarrow> ([], False) | Some v \<Rightarrow> (v, True));
          t = (case ts c key of None \<Rightarrow> 0 | Some t0 \<Rightarrow> t0)
      in if ok \<and> time_Since now t > maxTTL c
         then (([], False), MemoryCache_Delete key c)
         else ((resp, ok), c))"

text \<open>A history of calls on one cache, each with the clock reading at the call.\<close>

datatype cache_op =
    OpGet time string
  | OpSet time string bytes
  | OpDelete string

fun apply_op :: "MemoryCache \<Rightarrow> cache_op \<Rightarrow> MemoryCache" where
  "apply_op c (OpGet now key) = snd (MemoryCache_Get now key c)"
| "apply_op c (OpSet now key resp) = MemoryCache_Set now key resp c"
| "apply_op c (OpDelete key) = MemoryCache_Delete key c"

definition run_ops :: "MemoryCache \<Rightarrow> cache_op list \<Rightarrow> MemoryCache" where
  "run_ops c ops = foldl apply_op c ops"

section \<open>HTTP messages\<close>

text \<open>
  A header (Go's \<open>http.Header\<close>, a map from names to lists of values). \<open>Get\<close>, \<open>Set\<close> and
  \<open>Del\<close> canonicalise the name they are given (\<open>textproto.CanonicalMIMEHeaderKey\<close>: a
  name of token bytes has its first letter and every letter after a hyphen in upper case
  and the others in lower case; any other name is left as it is). \<open>Get\<close> returns the
  first value under the name, and the empty string when there is none.
\<close>

definition validHeaderFieldByte :: "char \<Rightarrow> bool" where
  "validHeaderFieldByte c =
     (let n = (of_char c :: nat) in
        (48 \<le> n \<and> n \<le> 57) \<or> (65 \<le> n \<and> n \<le> 90) \<or> (97 \<le> n \<and> n \<le> 122)
        \<or> n \<in> set [33, 35, 36, 37, 38, 39, 42, 43, 45, 46, 94, 95, 96, 124, 126])"

fun canonical_bytes :: "bool \<Rightarrow> string \<Rightarrow> string" where
  "canonical_bytes upper [] = []"
| "canonical_bytes upper (c # cs) =
     (let n = (of_char c :: nat);
          c' = (if upper \<and> 97 \<le> n \<and> n \<le> 122 then char_of (n - 32)
                else if \<not> upper \<and> 65 \<le> n \<and> n \<le> 90 then char_of (n + 32)
                else c)
      in c' # canonical_bytes (c' = CHR ''-'') cs)"

definition CanonicalMIMEHeaderKey :: "string \<Rightarrow> string" where
  "CanonicalMIMEHeaderKey s =
     (if list_all validHeaderFieldByte s then canonical_bytes True s else s)"

type_synonym http_Header = "string \<rightharpoonup> string list"

definition Header_Get :: "http_Header \<Rightarrow> string \<Rightarrow> string" where
  "Header_Get h key =
     (case h (CanonicalMIMEHeaderKey key) of
        None \<Rightarrow> []
      | Some [] \<Rightarrow> []
      | Some (v # vs) \<Rightarrow> v)"

definition Header_Set :: "http_Header \<Rightarrow> string \<Rightarrow> string \<Rightarrow> http_Header" where
  "Header_Set h key v = h(CanonicalMIMEHeaderKey key \<mapsto> [v])"

definition Header_Del :: "http_Header \<Rightarrow> string \<Rightarrow> http_Header" where
  "Header_Del h key = h(CanonicalMIMEHeaderKey key := None)"

definition XFromCache :: string where
  "XFromCache = ''X-Aproxy-From-Cache''"

definition XCacheable :: string where
  "XCacheable = ''X-Aproxy-Cacheable''"

text \<open>
  Requests are passed by pointer and \<open>RoundTrip\<close> writes through the pointer, so they
  live in a heap, from addresses to requests; an address the heap does not hold is the
  nil pointer. A response is a value; its \<open>Request\<close> field is the address of the request
  it answers, and its \<open>Body\<close> is what its body stream has yet to yield, so that a call
  that reads from the stream of a response gives back the response with another body. An
  error is its message.
\<close>

type_synonym addr = nat
type_synonym error = string

record http_Request =
  Method :: string
  URL :: string
  Header :: http_Header

record http_Response =
  StatusCode :: int
  RespHeader :: http_Header
  Body :: bytes
  Request :: "addr option"

type_synonym heap = "addr \<rightharpoonup> http_Request"

text \<open>
  An \<open>http.RoundTripper\<close>: from the request (its address and what is stored there) to a
  response and an error, either of which may be nil. It does not write to the request.
\<close>

type_synonym RoundTripper = "addr \<Rightarrow> http_Request \<Rightarrow> http_Response option \<times> error option"

section \<open>The caching transport\<close>

text \<open>
  Modelled from the spec: the \<open>Cache\<close> interface, whose declaration is not among the
  sources: \<open>Get(key) (value, found)\<close>, \<open>Set(key, value)\<close> and \<open>Delete(key)\<close>, here over
  the state \<open>'c\<close> of the implementation (a \<open>Get\<close> may change it, as the in-memory one
  does when it drops an expired entry).
\<close>

record 'c Cache =
  Get :: "string \<Rightarrow> 'c \<Rightarrow> (bytes \<times> bool) \<times> 'c"
  Set :: "string \<Rightarrow> bytes \<Rightarrow> 'c \<Rightarrow> 'c"
  Delete :: "string \<Rightarrow> 'c \<Rightarrow> 'c"

text \<open>
  What the transport calls and does not define: the standard library's default
  transport, \<open>http.ReadResponse\<close> (the parser of a response on the wire, which reads the
  request it is given) and \<open>httputil.DumpResponse\<close> (the serializer, which may read the
  request the response points to); and \<open>cacheKey\<close>, whose definition is not among the
  sources (the URL of the request, by the spec). \<open>DumpResponse\<close> reads the body stream
  of the response it is given: besides its result it gives the body it leaves in that
  response (a copy of what it read when it succeeds; when reading fails, only what the
  stream still holds after the bytes consumed).
\<close>

record env =
  http_DefaultTransport :: RoundTripper
  http_ReadResponse :: "bytes \<Rightarrow> http_Request \<Rightarrow> error + http_Response"
  httputil_DumpResponse :: "heap \<Rightarrow> http_Response \<Rightarrow> (error + bytes) \<times> bytes"
  cacheKey :: "http_Request \<Rightarrow> string"

record 'c Transport =
  Transport :: "RoundTripper option"
  Cache :: "'c Cache"

text \<open>
  What a call does beyond its result is recorded in the world it returns: the state of
  the cache, the heap of requests, and the calls made on the cache and on the underlying
  transport and the lines printed, in order.
\<close>

datatype event =
    Cache_Get string
  | Cache_Set string bytes
  | Transport_RoundTrip addr http_Request
  | Printf string

datatype panic = PanicError error | NilDereference

datatype outcome = Return "http_Response option" "error option" | Panic panic

record 'c world =
  store :: 'c
  requests :: heap
  events :: "event list"

definition NewTransport :: "'c Cache \<Rightarrow> 'c Transport" where
  "NewTransport c = \<lparr>Transport = None, Cache = c\<rparr>"

definition bytesToResp ::
  "env \<Rightarrow> bytes \<Rightarrow> addr \<Rightarrow> http_Request \<Rightarrow> http_Response option \<times> error option" where
  "bytesToResp E b req r =
     (case http_ReadResponse E b r of
        Inl e \<Rightarrow> (None, Some e)
      | Inr resp \<Rightarrow> (Some (resp\<lparr>Request := Some req\<rparr>), None))"

text \<open>\<open>lookup\<close> returns the cached response, nil (\<open>None\<close>) on a miss, or panics.\<close>

definition lookup ::
  "env \<Rightarrow> 'c Transport \<Rightarrow> addr \<Rightarrow> http_Request \<Rightarrow> 'c world
     \<Rightarrow> (panic + http_Response option) \<times> 'c world" where
  "lookup E t req r w =
     (let key = cacheKey E r;
          ((cachedVal, ok), c') = Get (Cache t) key (store w);
          w' = w\<lparr>store := c', events := events w @ [Cache_Get key]\<rparr>
      in if \<not> ok then (Inr None, w')
         else
           (case bytesToResp E cachedVal req r of
              (resp, Some e) \<Rightarrow> (Inl (PanicError e), w')
            | (None, None) \<Rightarrow> (Inl NilDereference, w')
            | (Some rs, None) \<Rightarrow>
                (Inr (Some (rs\<lparr>RespHeader := Header_Set (RespHeader rs) XFromCache ''1''\<rparr>)), w')))"

text \<open>The local variable \<open>cacheable\<close> of \<open>RoundTrip\<close>, as first computed.\<close>

definition cacheable :: "http_Request \<Rightarrow> bool" where
  "cacheable r =
     ((Method r = ''GET'' \<or> Method r = ''HEAD'') \<and> Header_Get (Header r) ''range'' = [])"

text \<open>The first part of \<open>RoundTrip\<close>: the lookup, made when the request is cacheable.\<close>

definition RoundTrip_lookup ::
  "env \<Rightarrow> 'c Transport \<Rightarrow> addr \<Rightarrow> http_Request \<Rightarrow> 'c world
     \<Rightarrow> (panic + http_Response option) \<times> 'c world" where
  "RoundTrip_lookup E t req r w = (if cacheable r then lookup E t req r w else (Inr None, w))"

text \<open>The underlying transport: the one configured, or the default when it is nil.\<close>

definition underlying :: "env \<Rightarrow> 'c Transport \<Rightarrow> RoundTripper" where
  "underlying E t = (case Transport t of None \<Rightarrow> http_DefaultTransport E | Some tr \<Rightarrow> tr)"

text \<open>
  The second part of \<open>RoundTrip\<close>, from the choice of the transport on. \<open>cacheable0\<close> is
  the variable \<open>cacheable\<close> on entry. Reading \<open>resp.StatusCode\<close> of a nil response panics.
  When \<open>DumpResponse\<close> fails, the response returned is the transport's, with the body
  that \<open>DumpResponse\<close> left in it.
\<close>

definition RoundTrip_forward ::
  "env \<Rightarrow> 'c Transport \<Rightarrow> addr \<Rightarrow> http_Request \<Rightarrow> bool \<Rightarrow> 'c world \<Rightarrow> outcome \<times> 'c world" where
  "RoundTrip_forward E t req r cacheable0 w =
     (let transport = underlying E t;
          r' = r\<lparr>Header := Header_Del (Header r) ''If-None-Match''\<rparr>;
          w1 = w\<lparr>requests := (requests w)(req \<mapsto> r'),
                 events := events w @ [Transport_RoundTrip req r']\<rparr>;
          (resp, err) = transport req r'
      in case (if err \<noteq> None then Inr True
               else case resp of None \<Rightarrow> Inl NilDereference
                              | Some rs \<Rightarrow> Inr (StatusCode rs = 304)) of
           Inl p \<Rightarrow> (Panic p, w1)
         | Inr notCacheable \<Rightarrow>
             (let cacheable1 = (if notCacheable then False else cacheable0)
              in if cacheable1 then
                   (case resp of
                      None \<Rightarrow> (Panic NilDereference, w1)
                    | Some rs \<Rightarrow>
                        (case httputil_DumpResponse E (requests w1) rs of
                           (Inr respBytes, body') \<Rightarrow>
                             (let key = cacheKey E r';
                                  w2 = w1\<lparr>store := Set (Cache t) key respBytes (store w1),
                                          events := events w1 @ [Cache_Set key respBytes]\<rparr>
                              in case bytesToResp E respBytes req r' of
                                   (resp', err') \<Rightarrow> (Return resp' err', w2))
                         | (Inl e, body') \<Rightarrow>
                             (Return (Some (rs\<lparr>Body := body'\<rparr>)) err,
                              w1\<lparr>events := events w1 @ [Printf (''[ERROR] '' @ e @ [CHR 0x0A])]\<rparr>)))
                 else (Return resp err, w1)))"

definition RoundTrip :: "env \<Rightarrow> 'c Transport \<Rightarrow> addr \<Rightarrow> 'c world \<Rightarrow> outcome \<times> 'c world" where
  "RoundTrip E t req w =
     (case requests w req of
        None \<Rightarrow> (Panic NilDereference, w)
      | Some r \<Rightarrow>
          (case RoundTrip_lookup E t req r w of
             (Inl p, w') \<Rightarrow> (Panic p, w')
           | (Inr (Some resp), w') \<Rightarrow>
               (Return (Some resp) None,
                w'\<lparr>events := events w' @ [Printf (''[from-cache] '' @ URL r @ [CHR 0x0A])]\<rparr>)
           | (Inr None, w') \<Rightarrow> RoundTrip_forward E t req r (cacheable r) w'))"

text \<open>The calls made on the underlying transport, in order.\<close>

fun forwarded :: "event list \<Rightarrow> (addr \<times> http_Request) list" where
  "forwarded [] = []"
| "forwarded (Transport_RoundTrip a r # es) = (a, r) # forwarded es"
| "forwarded (e # es) = forwarded es"

text \<open>The calls of \<open>Set\<close> made on the cache, in order.\<close>

fun cache_writes :: "event list \<Rightarrow> (string \<times> bytes) list" where
  "cache_writes [] = []"
| "cache_writes (Cache_Set k b # es) = (k, b) # cache_writes es"
| "cache_writes (e # es) = cache_writes es"

text \<open>The in-memory cache as a \<open>Cache\<close>, while the clock reads \<open>now\<close>.\<close>

definition MemoryCache_at :: "time \<Rightarrow> MemoryCache Cache" where
  "MemoryCache_at now =
     \<lparr>Get = MemoryCache_Get now, Set = MemoryCache_Set now, Delete = MemoryCache_Delete\<rparr>"

section \<open>Example inputs\<close>

text \<open>
  A toy wire format with one well-formed response, a serializer that fails on any other
  body and leaves it consumed, an origin that answers every request alike and one that cannot be reached; a
  request for \<open>http://x/a\<close> at address \<open>0\<close>; a cache with a TTL of 10 that is empty or
  holds bytes written at time 100; and a transport on that cache, with the clock at 105.
\<close>

definition ex_wire :: bytes where
  "ex_wire = ''HTTP/1.1 200 OK'' @ [CHR 0x0D, CHR 0x0A, CHR 0x0D, CHR 0x0A] @ ''hello''"

definition ex_parsed :: http_Response where
  "ex_parsed = \<lparr>StatusCode = 200, RespHeader = Map.empty, Body = ''hello'', Request = None\<rparr>"

definition ex_ReadResponse :: "bytes \<Rightarrow> http_Request \<Rightarrow> error + http_Response" where
  "ex_ReadResponse b r = (if b = ex_wire then Inr ex_parsed else Inl ''malformed HTTP response'')"

definition ex_DumpResponse :: "heap \<Rightarrow> http_Response \<Rightarrow> (error + bytes) \<times> bytes" where
  "ex_DumpResponse h rs =
     (if StatusCode rs = 200 \<and> Body rs = ''hello'' then (Inr ex_wire, Body rs)
      else (Inl ''unexpected EOF'', []))"

definition ex_env :: "RoundTripper \<Rightarrow> env" where
  "ex_env tr =
     \<lparr>http_DefaultTransport = tr, http_ReadResponse = ex_ReadResponse,
      httputil_DumpResponse = ex_DumpResponse, cacheKey = URL\<rparr>"

definition ex_origin :: "int \<Rightarrow> bytes \<Rightarrow> RoundTripper" where
  "ex_origin code body a r =
     (Some \<lparr>StatusCode = code, RespHeader = [''Etag'' \<mapsto> [''abc'']], Body = body,
            Request = Some a\<rparr>, None)"

definition ex_unreachable :: RoundTripper where
  "ex_unreachable a r = (None, Some ''connection refused'')"

definition ex_request :: "string \<Rightarrow> http_Header \<Rightarrow> http_Request" where
  "ex_request m h = \<lparr>Method = m, URL = ''http://x/a'', Header = h\<rparr>"

definition ex_empty :: MemoryCache where
  "ex_empty = \<lparr>items = Map.empty, ts = Map.empty, maxTTL = 10\<rparr>"

definition ex_stored :: "bytes \<Rightarrow> MemoryCache" where
  "ex_stored b = MemoryCache_Set 100 ''http://x/a'' b ex_empty"

definition ex_world :: "MemoryCache \<Rightarrow> http_Request \<Rightarrow> MemoryCache world" where
  "ex_world c r = \<lparr>store = c, requests = [0 \<mapsto> r], events = []\<rparr>"

definition ex_transport :: "MemoryCache Transport" where
  "ex_transport = NewTransport (MemoryCache_at 105)"

section \<open>Properties of the in-memory cache\<close>

lemma dom_Delete:
  "dom (items c) = dom (ts c) \<Longrightarrow>
   dom (items (MemoryCache_Delete key c)) = dom (ts (MemoryCache_Delete key c))"
  by (simp add: MemoryCache_Delete_def)

lemma dom_Set:
  "dom (items c) = dom (ts c) \<Longrightarrow>
   dom (items (MemoryCache_Set now key resp c)) = dom (ts (MemoryCache_Set now key resp c))"
  by (simp add: MemoryCache_Set_def)

lemma dom_Get:
  "dom (items c) = dom (ts c) \<Longrightarrow>
   dom (items (snd (MemoryCache_Get now key c))) = dom (ts (snd (MemoryCache_Get now key c)))"
  by (simp add: MemoryCache_Get_def Let_def dom_Delete split: option.split)

lemma dom_apply_op:
  "dom (items c) = dom (ts c) \<Longrightarrow> dom (items (apply_op c x)) = dom (ts (apply_op c x))"
  by (cases x) (simp_all add: dom_Get dom_Set dom_Delete)

lemma dom_foldl_ops:
  "dom (items c) = dom (ts c) \<Longrightarrow>
   dom (items (foldl apply_op c ops)) = dom (ts (foldl apply_op c ops))"
  by (induction ops arbitrary: c) (simp_all add: dom_apply_op)

text \<open>
  C9. In a cache that holds \<open>v\<close> under \<open>key\<close> with insertion timestamp \<open>t\<close> (as it does
  after a \<open>Set\<close> of the key at time \<open>t\<close>): a \<open>Get\<close> at a time \<open>now\<close> with
  \<open>now - t > maxTTL\<close> returns not-found and removes the entry, value and timestamp, and
  nothing else; a \<open>Get\<close> at any other time returns \<open>v\<close> and true and leaves the cache as
  it is.
\<close>

theorem MemoryCache_Get_expiry:
  assumes "items c key = Some v" and "ts c key = Some t"
  shows "MemoryCache_Get now key c =
           (if now - t > maxTTL c
            then (([], False), c\<lparr>ts := (ts c)(key := None), items := (items c)(key := None)\<rparr>)
            else ((v, True), c))"
  using assms
  by (simp add: MemoryCache_Get_def MemoryCache_Delete_def time_Since_def)

theorem MemoryCache_Get_expiry_witness:
  "items (MemoryCache_Set 100 ''k'' ''hello'' \<lparr>items = Map.empty, ts = Map.empty, maxTTL = 10\<rparr>) ''k''
     = Some ''hello''
   \<and> ts (MemoryCache_Set 100 ''k'' ''hello'' \<lparr>items = Map.empty, ts = Map.empty, maxTTL = 10\<rparr>) ''k''
     = Some 100
   \<and> MemoryCache_Get 111 ''k''
       (MemoryCache_Set 100 ''k'' ''hello'' \<lparr>items = Map.empty, ts = Map.empty, maxTTL = 10\<rparr>)
     = (([], False), \<lparr>items = Map.empty, ts = Map.empty, maxTTL = 10\<rparr>)
   \<and> MemoryCache_Get 110 ''k''
       (MemoryCache_Set 100 ''k'' ''hello'' \<lparr>items = Map.empty, ts = Map.empty, maxTTL = 10\<rparr>)
     = ((''hello'', True),
        \<lparr>items = [''k'' \<mapsto> ''hello''], ts = [''k'' \<mapsto> 100], maxTTL = 10\<rparr>)"
proof -
  let ?c = "MemoryCache_Set 100 ''k'' ''hello'' \<lparr>items = Map.empty, ts = Map.empty, maxTTL = 10\<rparr>"
  have i: "items ?c ''k'' = Some ''hello''" and t: "ts ?c ''k'' = Some 100"
    by (simp_all add: MemoryCache_Set_def)
  show ?thesis
    using i t MemoryCache_Get_expiry [OF i t, of 111] MemoryCache_Get_expiry [OF i t, of 110]
    by (simp add: MemoryCache_Set_def)
qed

text \<open>
  C10. The key set of \<open>items\<close> equals the key set of \<open>ts\<close> in the cache that
  \<open>NewMemoryCache\<close> returns and after every sequence of \<open>Get\<close>, \<open>Set\<close> and \<open>Delete\<close>
  calls on it.
\<close>

theorem MemoryCache_keys_invariant:
  assumes "NewMemoryCache ttl = Inr c"
  shows "dom (items (run_ops c ops)) = dom (ts (run_ops c ops))"
proof -
  from assms have "dom (items c) = dom (ts c)"
    by (auto simp: NewMemoryCache_def split: if_splits)
  then show ?thesis
    unfolding run_ops_def by (rule dom_foldl_ops)
qed

theorem MemoryCache_keys_invariant_witness:
  "NewMemoryCache 10 = Inr \<lparr>items = Map.empty, ts = Map.empty, maxTTL = 10\<rparr>
   \<and> dom (items (run_ops \<lparr>items = Map.empty, ts = Map.empty, maxTTL = 10\<rparr>
          [OpSet 100 ''a'' ''x'', OpSet 105 ''b'' ''y'', OpGet 111 ''a'', OpDelete ''c'']))
     = dom (ts (run_ops \<lparr>items = Map.empty, ts = Map.empty, maxTTL = 10\<rparr>
          [OpSet 100 ''a'' ''x'', OpSet 105 ''b'' ''y'', OpGet 111 ''a'', OpDelete ''c'']))
   \<and> dom (items (run_ops \<lparr>items = Map.empty, ts = Map.empty, maxTTL = 10\<rparr>
          [OpSet 100 ''a'' ''x'', OpSet 105 ''b'' ''y'', OpGet 111 ''a'', OpDelete ''c''])) = {''b''}"
proof -
  have n: "NewMemoryCache 10 = Inr \<lparr>items = Map.empty, ts = Map.empty, maxTTL = 10\<rparr>"
    by (simp add: NewMemoryCache_def)
  have d: "dom (items (run_ops \<lparr>items = Map.empty, ts = Map.empty, maxTTL = 10\<rparr>
          [OpSet 100 ''a'' ''x'', OpSet 105 ''b'' ''y'', OpGet 111 ''a'', OpDelete ''c''])) = {''b''}"
    by (simp add: run_ops_def MemoryCache_Set_def MemoryCache_Get_def MemoryCache_Delete_def
        time_Since_def)
  show ?thesis
    using n d MemoryCache_keys_invariant [OF n] by simp
qed

section \<open>Properties of the caching transport\<close>

lemma canon_range: "CanonicalMIMEHeaderKey ''range'' = ''Range''"
  by code_simp

lemma canon_If_None_Match: "CanonicalMIMEHeaderKey ''If-None-Match'' = ''If-None-Match''"
  by code_simp

lemma canon_XFromCache: "CanonicalMIMEHeaderKey XFromCache = XFromCache"
  by code_simp

lemma XFromCache_neq_XCacheable: "XFromCache \<noteq> XCacheable"
  by (simp add: XFromCache_def XCacheable_def)

lemma Header_Get_range:
  "Header_Get h ''range'' = (case h ''Range'' of None \<Rightarrow> [] | Some [] \<Rightarrow> [] | Some (v # vs) \<Rightarrow> v)"
  by (simp add: Header_Get_def canon_range)

lemma Header_Del_If_None_Match:
  "Header_Del h ''If-None-Match'' = h(''If-None-Match'' := None)"
  by (simp add: Header_Del_def canon_If_None_Match)

lemma forwarded_append: "forwarded (xs @ ys) = forwarded xs @ forwarded ys"
  by (induction xs rule: forwarded.induct) simp_all

lemma cache_writes_append: "cache_writes (xs @ ys) = cache_writes xs @ cache_writes ys"
  by (induction xs rule: cache_writes.induct) simp_all

lemma lookup_requests: "lookup E t req r w = (x, w') \<Longrightarrow> requests w' = requests w"
  by (auto simp: lookup_def Let_def split: prod.splits if_splits option.splits)

lemma RoundTrip_lookup_requests:
  "RoundTrip_lookup E t req r w = (x, w') \<Longrightarrow> requests w' = requests w"
  by (auto simp: RoundTrip_lookup_def dest: lookup_requests split: if_splits)

lemma lookup_forwarded: "lookup E t req r w = (x, w') \<Longrightarrow> forwarded (events w') = forwarded (events w)"
  by (auto simp: lookup_def Let_def forwarded_append split: prod.splits if_splits option.splits)

lemma RoundTrip_lookup_forwarded:
  "RoundTrip_lookup E t req r w = (x, w') \<Longrightarrow> forwarded (events w') = forwarded (events w)"
  by (auto simp: RoundTrip_lookup_def dest: lookup_forwarded split: if_splits)

lemma lookup_cache_writes:
  "lookup E t req r w = (x, w') \<Longrightarrow> cache_writes (events w') = cache_writes (events w)"
  by (auto simp: lookup_def Let_def cache_writes_append split: prod.splits if_splits option.splits)

lemma RoundTrip_lookup_cache_writes:
  "RoundTrip_lookup E t req r w = (x, w') \<Longrightarrow> cache_writes (events w') = cache_writes (events w)"
  by (auto simp: RoundTrip_lookup_def dest: lookup_cache_writes split: if_splits)

text \<open>
  The lookup gives no response, and \<open>RoundTrip\<close> goes on to the forwarding path, exactly
  when the request is not cacheable or the cache does not have the key.
\<close>

lemma RoundTrip_lookup_miss:
  "(\<exists>w1. RoundTrip_lookup E t req r w = (Inr None, w1)) \<longleftrightarrow>
   (cacheable r \<longrightarrow> \<not> snd (fst (Get (Cache t) (cacheKey E r) (store w))))"
  by (auto simp: RoundTrip_lookup_def lookup_def Let_def bytesToResp_def
      split: prod.splits sum.splits)

lemma RoundTrip_miss:
  assumes "requests w req = Some r" and "RoundTrip_lookup E t req r w = (Inr None, w1)"
  shows "RoundTrip E t req w = RoundTrip_forward E t req r (cacheable r) w1"
  using assms by (simp add: RoundTrip_def)

text \<open>What the forwarding path does, case by case.\<close>

lemma forward_world_requests:
  "requests (snd (RoundTrip_forward E t req r c0 w)) =
     (requests w)(req \<mapsto> r\<lparr>Header := Header_Del (Header r) ''If-None-Match''\<rparr>)"
  by (simp add: RoundTrip_forward_def Let_def split: prod.splits sum.splits option.splits)

lemma forward_forwarded:
  "forwarded (events (snd (RoundTrip_forward E t req r c0 w))) =
     forwarded (events w) @ [(req, r\<lparr>Header := Header_Del (Header r) ''If-None-Match''\<rparr>)]"
  by (simp add: RoundTrip_forward_def Let_def forwarded_append
      split: prod.splits sum.splits option.splits)

lemma forward_not_cached:
  assumes "underlying E t req (r\<lparr>Header := Header_Del (Header r) ''If-None-Match''\<rparr>) = (resp, err)"
    and "c0 \<longrightarrow> err \<noteq> None \<or> resp = None \<or> (\<exists>rs. resp = Some rs \<and> StatusCode rs = 304)"
  shows "RoundTrip_forward E t req r c0 w =
     (if resp = None \<and> err = None then Panic NilDereference else Return resp err,
      w\<lparr>requests := (requests w)(req \<mapsto> r\<lparr>Header := Header_Del (Header r) ''If-None-Match''\<rparr>),
        events := events w @
          [Transport_RoundTrip req (r\<lparr>Header := Header_Del (Header r) ''If-None-Match''\<rparr>)]\<rparr>)"
  using assms
  by (auto simp: RoundTrip_forward_def Let_def split: option.splits)

lemma forward_cached:
  assumes "underlying E t req (r\<lparr>Header := Header_Del (Header r) ''If-None-Match''\<rparr>) = (Some rs, None)"
    and "StatusCode rs \<noteq> 304"
  shows "RoundTrip_forward E t req r True w =
     (let r' = r\<lparr>Header := Header_Del (Header r) ''If-None-Match''\<rparr>;
          w1 = w\<lparr>requests := (requests w)(req \<mapsto> r'),
                 events := events w @ [Transport_RoundTrip req r']\<rparr>
      in case httputil_DumpResponse E (requests w1) rs of
           (Inr respBytes, body') \<Rightarrow>
             (case bytesToResp E respBytes req r' of (resp', err') \<Rightarrow> Return resp' err',
              w1\<lparr>store := Set (Cache t) (cacheKey E r') respBytes (store w1),
                 events := events w1 @ [Cache_Set (cacheKey E r') respBytes]\<rparr>)
         | (Inl e, body') \<Rightarrow>
             (Return (Some (rs\<lparr>Body := body'\<rparr>)) None,
              w1\<lparr>events := events w1 @ [Printf (''[ERROR] '' @ e @ [CHR 0x0A])]\<rparr>))"
  using assms
  by (auto simp: RoundTrip_forward_def Let_def split: option.splits sum.splits prod.splits)

text \<open>Where a returned response comes from.\<close>

lemma lookup_found:
  assumes "lookup E t req r w = (Inr (Some resp), w')"
  shows "\<exists>b c' resp0. Get (Cache t) (cacheKey E r) (store w) = ((b, True), c')
           \<and> http_ReadResponse E b r = Inr resp0
           \<and> resp = resp0\<lparr>Request := Some req,
                           RespHeader := (RespHeader resp0)(XFromCache \<mapsto> [''1''])\<rparr>"
  using assms
  by (fastforce simp: lookup_def Let_def bytesToResp_def Header_Set_def canon_XFromCache
      split: prod.splits if_splits sum.splits)

lemma forward_returned:
  assumes "fst (RoundTrip_forward E t req r c0 w) = Return (Some resp) err"
  shows "(\<exists>resp0 body'.
            fst (underlying E t req (r\<lparr>Header := Header_Del (Header r) ''If-None-Match''\<rparr>))
              = Some resp0
            \<and> resp = resp0\<lparr>Body := body'\<rparr>)
         \<or> (\<exists>rs bs body' resp0.
              c0
              \<and> underlying E t req (r\<lparr>Header := Header_Del (Header r) ''If-None-Match''\<rparr>)
                  = (Some rs, None)
              \<and> StatusCode rs \<noteq> 304
              \<and> httputil_DumpResponse E
                    ((requests w)(req \<mapsto> r\<lparr>Header := Header_Del (Header r) ''If-None-Match''\<rparr>)) rs
                  = (Inr bs, body')
              \<and> http_ReadResponse E bs (r\<lparr>Header := Header_Del (Header r) ''If-None-Match''\<rparr>)
                  = Inr resp0
              \<and> resp = resp0\<lparr>Request := Some req\<rparr>)"
proof -
  let ?r' = "r\<lparr>Header := Header_Del (Header r) ''If-None-Match''\<rparr>"
  obtain rs er where u: "underlying E t req ?r' = (rs, er)"
    by (cases "underlying E t req ?r'")
  show ?thesis
  proof (cases "c0 \<longrightarrow> er \<noteq> None \<or> rs = None \<or> (\<exists>x. rs = Some x \<and> StatusCode x = 304)")
    case True
    from assms have "rs = Some resp"
      by (simp add: forward_not_cached [OF u True] split: if_splits)
    with u have "fst (underlying E t req ?r') = Some resp \<and> resp = resp\<lparr>Body := Body resp\<rparr>"
      by simp
    then show ?thesis
      by blast
  next
    case False
    then obtain x where x: "rs = Some x" "er = None" "StatusCode x \<noteq> 304" "c0"
      by (cases rs) auto
    from u x have u': "underlying E t req ?r' = (Some x, None)"
      by simp
    obtain res body' where d: "httputil_DumpResponse E ((requests w)(req \<mapsto> ?r')) x = (res, body')"
      by (cases "httputil_DumpResponse E ((requests w)(req \<mapsto> ?r')) x")
    show ?thesis
    proof (cases res)
      case (Inl e)
      with assms x d have "resp = x\<lparr>Body := body'\<rparr>"
        by (simp add: forward_cached [OF u' x(3)] Let_def)
      with u' have "fst (underlying E t req ?r') = Some x \<and> resp = x\<lparr>Body := body'\<rparr>"
        by simp
      then show ?thesis
        by blast
    next
      case (Inr bs)
      with assms x d have "\<exists>resp0. http_ReadResponse E bs ?r' = Inr resp0
          \<and> resp = resp0\<lparr>Request := Some req\<rparr>"
        by (auto simp: forward_cached [OF u' x(3)] Let_def bytesToResp_def split: sum.splits)
      with x u' d Inr show ?thesis
        by blast
    qed
  qed
qed

text \<open>The inputs of the examples evaluated.\<close>

lemmas ex_defs =
  ex_wire_def ex_parsed_def ex_ReadResponse_def ex_DumpResponse_def ex_env_def ex_origin_def
  ex_unreachable_def ex_request_def ex_empty_def ex_stored_def ex_world_def ex_transport_def
  NewTransport_def MemoryCache_at_def MemoryCache_Get_def MemoryCache_Set_def
  MemoryCache_Delete_def time_Since_def underlying_def

lemma ex_miss:
  "RoundTrip_lookup (ex_env tr) ex_transport 0 (ex_request ''GET'' h) (ex_world ex_empty (ex_request ''GET'' h))
   = (if Header_Get h ''range'' = []
      then (Inr None, \<lparr>store = ex_empty, requests = [0 \<mapsto> ex_request ''GET'' h],
                        events = [Cache_Get ''http://x/a'']\<rparr>)
      else (Inr None, ex_world ex_empty (ex_request ''GET'' h)))"
  by (simp add: RoundTrip_lookup_def cacheable_def lookup_def Let_def ex_defs)

text \<open>
  C1 (as amended). For a request whose method is neither GET nor HEAD, and for one whose
  \<open>Range\<close> header has a non-empty first value (\<open>Header.Get("range")\<close> is not the empty
  string), \<open>RoundTrip\<close> calls neither \<open>Get\<close> nor \<open>Set\<close> on the cache: the only call it
  makes is the one on the underlying transport, the state of the cache is unchanged, and
  it returns what that transport returned (a transport that returns a nil response with a
  nil error makes the call panic when the status code is read).
\<close>

theorem RoundTrip_ineligible_bypasses_cache:
  assumes "requests w req = Some r"
    and "(Method r \<noteq> ''GET'' \<and> Method r \<noteq> ''HEAD'') \<or> Header_Get (Header r) ''range'' \<noteq> []"
    and "underlying E t req (r\<lparr>Header := Header_Del (Header r) ''If-None-Match''\<rparr>) = (resp, err)"
  shows "fst (RoundTrip E t req w) =
           (if resp = None \<and> err = None then Panic NilDereference else Return resp err)
         \<and> store (snd (RoundTrip E t req w)) = store w
         \<and> events (snd (RoundTrip E t req w)) = events w @
             [Transport_RoundTrip req (r\<lparr>Header := Header_Del (Header r) ''If-None-Match''\<rparr>)]"
proof -
  from assms(2) have nc: "\<not> cacheable r"
    by (auto simp: cacheable_def)
  from forward_not_cached [OF assms(3), of False w] nc assms(1)
  show ?thesis
    by (simp add: RoundTrip_def RoundTrip_lookup_def)
qed

theorem RoundTrip_ineligible_bypasses_cache_witness:
  "requests (ex_world (ex_stored ex_wire) (ex_request ''GET'' [''Range'' \<mapsto> [''bytes=0-10'']])) 0
     = Some (ex_request ''GET'' [''Range'' \<mapsto> [''bytes=0-10'']])
   \<and> Header_Get (Header (ex_request ''GET'' [''Range'' \<mapsto> [''bytes=0-10'']])) ''range'' = ''bytes=0-10''
   \<and> fst (RoundTrip (ex_env (ex_origin 206 ''hello'')) ex_transport 0
        (ex_world (ex_stored ex_wire) (ex_request ''GET'' [''Range'' \<mapsto> [''bytes=0-10'']])))
     = Return (Some \<lparr>StatusCode = 206, RespHeader = [''Etag'' \<mapsto> [''abc'']], Body = ''hello'',
                     Request = Some 0\<rparr>) None
   \<and> store (snd (RoundTrip (ex_env (ex_origin 206 ''hello'')) ex_transport 0
        (ex_world (ex_stored ex_wire) (ex_request ''GET'' [''Range'' \<mapsto> [''bytes=0-10'']]))))
     = ex_stored ex_wire
   \<and> events (snd (RoundTrip (ex_env (ex_origin 206 ''hello'')) ex_transport 0
        (ex_world (ex_stored ex_wire) (ex_request ''GET'' [''Range'' \<mapsto> [''bytes=0-10'']]))))
     = [Transport_RoundTrip 0 (ex_request ''GET'' [''Range'' \<mapsto> [''bytes=0-10'']])]"
proof -
  let ?r = "ex_request ''GET'' [''Range'' \<mapsto> [''bytes=0-10'']]"
  let ?w = "ex_world (ex_stored ex_wire) ?r"
  have h1: "requests ?w 0 = Some ?r"
    by (simp add: ex_world_def)
  have g: "Header_Get (Header ?r) ''range'' = ''bytes=0-10''"
    by (simp add: Header_Get_range ex_request_def)
  then have h2: "(Method ?r \<noteq> ''GET'' \<and> Method ?r \<noteq> ''HEAD'') \<or> Header_Get (Header ?r) ''range'' \<noteq> []"
    by simp
  have h3: "underlying (ex_env (ex_origin 206 ''hello'')) ex_transport 0
              (?r\<lparr>Header := Header_Del (Header ?r) ''If-None-Match''\<rparr>)
            = (Some \<lparr>StatusCode = 206, RespHeader = [''Etag'' \<mapsto> [''abc'']], Body = ''hello'',
                     Request = Some 0\<rparr>, None)"
    by (simp add: ex_defs)
  have d: "?r\<lparr>Header := Header_Del (Header ?r) ''If-None-Match''\<rparr> = ?r"
    by (simp add: ex_request_def Header_Del_If_None_Match)
  show ?thesis
    using h1 g RoundTrip_ineligible_bypasses_cache [OF h1 h2 h3] d
    by (simp add: ex_world_def)
qed

text \<open>
  A GET request that carries a \<open>Range\<close> header with an empty value counts as cacheable:
  \<open>Header.Get\<close> returns the empty string for it, the cache is consulted and the stored
  response is served.
\<close>

theorem RoundTrip_empty_Range_counterexample:
  "Method (ex_request ''GET'' [''Range'' \<mapsto> [[]]]) = ''GET''
   \<and> Header (ex_request ''GET'' [''Range'' \<mapsto> [[]]]) ''Range'' = Some [[]]
   \<and> events (snd (RoundTrip (ex_env (ex_origin 206 ''hello'')) ex_transport 0
        (ex_world (ex_stored ex_wire) (ex_request ''GET'' [''Range'' \<mapsto> [[]]]))))
     = [Cache_Get ''http://x/a'', Printf (''[from-cache] http://x/a'' @ [CHR 0x0A])]
   \<and> fst (RoundTrip (ex_env (ex_origin 206 ''hello'')) ex_transport 0
        (ex_world (ex_stored ex_wire) (ex_request ''GET'' [''Range'' \<mapsto> [[]]])))
     = Return (Some \<lparr>StatusCode = 200, RespHeader = [XFromCache \<mapsto> [''1'']], Body = ''hello'',
                     Request = Some 0\<rparr>) None"
  by (simp add: RoundTrip_def RoundTrip_lookup_def cacheable_def lookup_def bytesToResp_def
      Header_Get_range Header_Set_def canon_XFromCache Let_def ex_defs)

text \<open>
  C2. For a GET or HEAD request without a \<open>Range\<close> value, when the cache returns bytes
  that deserialize to a response, \<open>RoundTrip\<close> returns that response with its \<open>Request\<close>
  field set to the request and the header \<open>X-Aproxy-From-Cache: 1\<close>, with a nil error; the
  underlying transport is not called and the request is left as it was.
\<close>

theorem RoundTrip_cache_hit:
  assumes "requests w req = Some r"
    and "Method r = ''GET'' \<or> Method r = ''HEAD''"
    and "Header_Get (Header r) ''range'' = []"
    and "Get (Cache t) (cacheKey E r) (store w) = ((b, True), c')"
    and "http_ReadResponse E b r = Inr resp"
  shows "fst (RoundTrip E t req w) =
           Return (Some (resp\<lparr>RespHeader := (RespHeader resp)(XFromCache \<mapsto> [''1'']),
                              Request := Some req\<rparr>)) None
         \<and> Header_Get ((RespHeader resp)(XFromCache \<mapsto> [''1''])) XFromCache = ''1''
         \<and> forwarded (events (snd (RoundTrip E t req w))) = forwarded (events w)
         \<and> events (snd (RoundTrip E t req w)) = events w @
             [Cache_Get (cacheKey E r), Printf (''[from-cache] '' @ URL r @ [CHR 0x0A])]
         \<and> requests (snd (RoundTrip E t req w)) = requests w"
  using assms
  by (simp add: RoundTrip_def RoundTrip_lookup_def cacheable_def lookup_def bytesToResp_def
      Let_def Header_Set_def Header_Get_def canon_XFromCache forwarded_append)

theorem RoundTrip_cache_hit_witness:
  "requests (ex_world (ex_stored ex_wire) (ex_request ''GET'' Map.empty)) 0
     = Some (ex_request ''GET'' Map.empty)
   \<and> Get (Cache ex_transport) (cacheKey (ex_env ex_unreachable) (ex_request ''GET'' Map.empty))
        (store (ex_world (ex_stored ex_wire) (ex_request ''GET'' Map.empty)))
     = ((ex_wire, True), ex_stored ex_wire)
   \<and> http_ReadResponse (ex_env ex_unreachable) ex_wire (ex_request ''GET'' Map.empty) = Inr ex_parsed
   \<and> fst (RoundTrip (ex_env ex_unreachable) ex_transport 0
        (ex_world (ex_stored ex_wire) (ex_request ''GET'' Map.empty)))
     = Return (Some \<lparr>StatusCode = 200, RespHeader = [''X-Aproxy-From-Cache'' \<mapsto> [''1'']],
                     Body = ''hello'', Request = Some 0\<rparr>) None
   \<and> forwarded (events (snd (RoundTrip (ex_env ex_unreachable) ex_transport 0
        (ex_world (ex_stored ex_wire) (ex_request ''GET'' Map.empty))))) = []"
proof -
  let ?r = "ex_request ''GET'' Map.empty"
  let ?w = "ex_world (ex_stored ex_wire) ?r"
  let ?E = "ex_env ex_unreachable"
  have h1: "requests ?w 0 = Some ?r"
    by (simp add: ex_world_def)
  have h2: "Method ?r = ''GET'' \<or> Method ?r = ''HEAD''"
    by (simp add: ex_request_def)
  have h3: "Header_Get (Header ?r) ''range'' = []"
    by (simp add: Header_Get_range ex_request_def)
  have h4: "Get (Cache ex_transport) (cacheKey ?E ?r) (store ?w) = ((ex_wire, True), ex_stored ex_wire)"
    by (simp add: ex_defs)
  have h5: "http_ReadResponse ?E ex_wire ?r = Inr ex_parsed"
    by (simp add: ex_env_def ex_ReadResponse_def)
  show ?thesis
    using h1 h4 h5 RoundTrip_cache_hit [OF h1 h2 h3 h4 h5]
    by (simp add: ex_parsed_def XFromCache_def ex_world_def)
qed

text \<open>
  C3 (as amended). \<open>RoundTrip\<close> never sets the \<open>X-Aproxy-Cacheable\<close> header: the response
  it returns has under that name exactly what the response it was made from has. That
  response is, on a cache hit, the one \<open>ReadResponse\<close> deserialized from the bytes that
  \<open>Get\<close> returned (to which only the request and \<open>X-Aproxy-From-Cache\<close> are added);
  after a successful cache write, the one \<open>ReadResponse\<close> deserialized from the bytes
  that \<open>DumpResponse\<close> made of the transport's response to the forwarded request (to
  which only the request is added); and otherwise that response of the underlying
  transport itself (of which at most the body differs).
\<close>

theorem RoundTrip_never_sets_XCacheable:
  assumes "requests w req = Some r"
    and "fst (RoundTrip E t req w) = Return (Some resp) err"
  shows "(\<exists>b c' resp0.
            cacheable r
            \<and> Get (Cache t) (cacheKey E r) (store w) = ((b, True), c')
            \<and> http_ReadResponse E b r = Inr resp0
            \<and> resp = resp0\<lparr>Request := Some req,
                            RespHeader := (RespHeader resp0)(XFromCache \<mapsto> [''1''])\<rparr>
            \<and> RespHeader resp XCacheable = RespHeader resp0 XCacheable)
         \<or> (\<exists>resp0 body'.
              \<not> (cacheable r \<and> snd (fst (Get (Cache t) (cacheKey E r) (store w))))
              \<and> fst (underlying E t req (r\<lparr>Header := Header_Del (Header r) ''If-None-Match''\<rparr>))
                  = Some resp0
              \<and> resp = resp0\<lparr>Body := body'\<rparr>
              \<and> RespHeader resp XCacheable = RespHeader resp0 XCacheable)
         \<or> (\<exists>rs bs body' resp0.
              cacheable r
              \<and> \<not> snd (fst (Get (Cache t) (cacheKey E r) (store w)))
              \<and> underlying E t req (r\<lparr>Header := Header_Del (Header r) ''If-None-Match''\<rparr>)
                  = (Some rs, None)
              \<and> StatusCode rs \<noteq> 304
              \<and> httputil_DumpResponse E
                    ((requests w)(req \<mapsto> r\<lparr>Header := Header_Del (Header r) ''If-None-Match''\<rparr>)) rs
                  = (Inr bs, body')
              \<and> http_ReadResponse E bs (r\<lparr>Header := Header_Del (Header r) ''If-None-Match''\<rparr>)
                  = Inr resp0
              \<and> resp = resp0\<lparr>Request := Some req\<rparr>
              \<and> RespHeader resp XCacheable = RespHeader resp0 XCacheable)"
proof -
  obtain x w1 where l: "RoundTrip_lookup E t req r w = (x, w1)"
    by (cases "RoundTrip_lookup E t req r w")
  show ?thesis
  proof (cases x)
    case (Inl p)
    with assms l show ?thesis
      by (simp add: RoundTrip_def)
  next
    case (Inr found)
    show ?thesis
    proof (cases found)
      case None
      with l Inr have m: "RoundTrip_lookup E t req r w = (Inr None, w1)"
        by simp
      then have miss: "cacheable r \<longrightarrow> \<not> snd (fst (Get (Cache t) (cacheKey E r) (store w)))"
        using RoundTrip_lookup_miss [of E t req r w] by blast
      from assms m
      have "fst (RoundTrip_forward E t req r (cacheable r) w1) = Return (Some resp) err"
        by (simp add: RoundTrip_def)
      from forward_returned [OF this] miss show ?thesis
        unfolding RoundTrip_lookup_requests [OF m]
        by (elim disjE exE conjE) (rule disjI2, rule disjI1, fastforce, rule disjI2, rule disjI2, fastforce)
    next
      case (Some cached)
      with assms l Inr have "cached = resp"
        by (simp add: RoundTrip_def)
      with l Inr Some have c: "cacheable r" and "lookup E t req r w = (Inr (Some resp), w1)"
        by (simp_all add: RoundTrip_lookup_def split: if_splits)
      from lookup_found [OF this(2)] c XFromCache_neq_XCacheable show ?thesis
        by (elim exE conjE) (rule disjI1, fastforce)
    qed
  qed
qed

theorem RoundTrip_never_sets_XCacheable_witness:
  "requests (ex_world ex_empty (ex_request ''POST'' Map.empty)) 0
     = Some (ex_request ''POST'' Map.empty)
   \<and> fst (RoundTrip (ex_env (ex_origin 200 ''hello'')) ex_transport 0
        (ex_world ex_empty (ex_request ''POST'' Map.empty)))
     = Return (Some \<lparr>StatusCode = 200, RespHeader = [''Etag'' \<mapsto> [''abc'']], Body = ''hello'',
                     Request = Some 0\<rparr>) None
   \<and> \<not> cacheable (ex_request ''POST'' Map.empty)
   \<and> (\<exists>resp0 body'.
         fst (underlying (ex_env (ex_origin 200 ''hello'')) ex_transport 0
                (ex_request ''POST'' Map.empty)) = Some resp0
         \<and> \<lparr>StatusCode = 200, RespHeader = [''Etag'' \<mapsto> [''abc'']], Body = ''hello'',
               Request = Some 0\<rparr> = resp0\<lparr>Body := body'\<rparr>
         \<and> RespHeader \<lparr>StatusCode = 200, RespHeader = [''Etag'' \<mapsto> [''abc'']],
              Body = ''hello'', Request = Some (0::nat)\<rparr> XCacheable = RespHeader resp0 XCacheable)"
proof -
  let ?r = "ex_request ''POST'' Map.empty"
  have h1: "requests (ex_world ex_empty ?r) 0 = Some ?r"
    by (simp add: ex_world_def)
  have h2: "fst (RoundTrip (ex_env (ex_origin 200 ''hello'')) ex_transport 0 (ex_world ex_empty ?r))
     = Return (Some \<lparr>StatusCode = 200, RespHeader = [''Etag'' \<mapsto> [''abc'']], Body = ''hello'',
                     Request = Some 0\<rparr>) None"
    by (simp add: RoundTrip_def RoundTrip_lookup_def cacheable_def RoundTrip_forward_def
        Let_def ex_defs)
  have n: "\<not> cacheable ?r"
    by (simp add: cacheable_def ex_request_def)
  have d: "?r\<lparr>Header := Header_Del (Header ?r) ''If-None-Match''\<rparr> = ?r"
    by (simp add: ex_request_def Header_Del_If_None_Match)
  show ?thesis
    using h1 h2 n RoundTrip_never_sets_XCacheable [OF h1 h2]
    by (simp add: d)
qed

text \<open>
  The constant \<open>XCacheable\<close> is declared and never used: the response to a cacheable GET
  and the response to a POST both come back without the header when the origin and the
  stored bytes do not have it.
\<close>

theorem RoundTrip_XCacheable_counterexample:
  "cacheable (ex_request ''GET'' Map.empty)
   \<and> fst (RoundTrip (ex_env (ex_origin 200 ''hello'')) ex_transport 0
        (ex_world ex_empty (ex_request ''GET'' Map.empty)))
     = Return (Some \<lparr>StatusCode = 200, RespHeader = Map.empty, Body = ''hello'',
                     Request = Some 0\<rparr>) None
   \<and> RespHeader \<lparr>StatusCode = 200, RespHeader = Map.empty, Body = ''hello'',
                     Request = Some (0::nat)\<rparr> XCacheable = None
   \<and> fst (RoundTrip (ex_env (ex_origin 200 ''hello'')) ex_transport 0
        (ex_world ex_empty (ex_request ''POST'' Map.empty)))
     = Return (Some \<lparr>StatusCode = 200, RespHeader = [''Etag'' \<mapsto> [''abc'']], Body = ''hello'',
                     Request = Some 0\<rparr>) None
   \<and> RespHeader \<lparr>StatusCode = 200, RespHeader = [''Etag'' \<mapsto> [''abc'']], Body = ''hello'',
                     Request = Some (0::nat)\<rparr> XCacheable = None"
  by (simp add: RoundTrip_def RoundTrip_lookup_def cacheable_def lookup_def
      RoundTrip_forward_def bytesToResp_def Header_Get_range Header_Del_If_None_Match
      Let_def XCacheable_def ex_defs)

text \<open>
  C4. Whenever the lookup gives no response (the request is not cacheable, or the cache
  misses), the underlying transport is called once more, with the request as it is after
  the deletion of \<open>If-None-Match\<close>; and the heap after the call holds that same changed
  request at the caller's address, everything else in the heap being as before: the
  deletion is made in place, on the caller's request, not on a clone.
\<close>

theorem RoundTrip_deletes_If_None_Match:
  assumes "requests w req = Some r"
    and "RoundTrip_lookup E t req r w = (Inr None, w1)"
  shows "forwarded (events (snd (RoundTrip E t req w))) =
           forwarded (events w) @ [(req, r\<lparr>Header := (Header r)(''If-None-Match'' := None)\<rparr>)]
         \<and> requests (snd (RoundTrip E t req w)) =
           (requests w)(req \<mapsto> r\<lparr>Header := (Header r)(''If-None-Match'' := None)\<rparr>)
         \<and> Header_Get ((Header r)(''If-None-Match'' := None)) ''If-None-Match'' = []"
  using RoundTrip_lookup_forwarded [OF assms(2)] RoundTrip_lookup_requests [OF assms(2)]
  by (simp add: RoundTrip_miss [OF assms] forward_forwarded forward_world_requests
      Header_Del_If_None_Match Header_Get_def canon_If_None_Match)

theorem RoundTrip_deletes_If_None_Match_witness:
  "requests (ex_world ex_empty (ex_request ''GET'' [''If-None-Match'' \<mapsto> [''abc'']])) 0
     = Some (ex_request ''GET'' [''If-None-Match'' \<mapsto> [''abc'']])
   \<and> RoundTrip_lookup (ex_env (ex_origin 200 ''hello'')) ex_transport 0
        (ex_request ''GET'' [''If-None-Match'' \<mapsto> [''abc'']])
        (ex_world ex_empty (ex_request ''GET'' [''If-None-Match'' \<mapsto> [''abc'']]))
     = (Inr None, \<lparr>store = ex_empty,
                    requests = [0 \<mapsto> ex_request ''GET'' [''If-None-Match'' \<mapsto> [''abc'']]],
                    events = [Cache_Get ''http://x/a'']\<rparr>)
   \<and> forwarded (events (snd (RoundTrip (ex_env (ex_origin 200 ''hello'')) ex_transport 0
        (ex_world ex_empty (ex_request ''GET'' [''If-None-Match'' \<mapsto> [''abc'']])))))
     = [(0, ex_request ''GET'' Map.empty)]
   \<and> requests (snd (RoundTrip (ex_env (ex_origin 200 ''hello'')) ex_transport 0
        (ex_world ex_empty (ex_request ''GET'' [''If-None-Match'' \<mapsto> [''abc'']])))) 0
     = Some (ex_request ''GET'' Map.empty)"
proof -
  let ?r = "ex_request ''GET'' [''If-None-Match'' \<mapsto> [''abc'']]"
  let ?w = "ex_world ex_empty ?r"
  let ?E = "ex_env (ex_origin 200 ''hello'')"
  have h1: "requests ?w 0 = Some ?r"
    by (simp add: ex_world_def)
  have h2: "RoundTrip_lookup ?E ex_transport 0 ?r ?w
     = (Inr None, \<lparr>store = ex_empty, requests = [0 \<mapsto> ?r], events = [Cache_Get ''http://x/a'']\<rparr>)"
    by (simp add: ex_miss Header_Get_range)
  have d: "?r\<lparr>Header := (Header ?r)(''If-None-Match'' := None)\<rparr> = ex_request ''GET'' Map.empty"
    by (simp add: ex_request_def)
  show ?thesis
    using h1 h2 RoundTrip_deletes_If_None_Match [OF h1 h2] d
    by (simp add: ex_world_def)
qed

text \<open>
  C5. On the forwarding path, when the underlying transport returns an error, or a
  response with status 304, \<open>RoundTrip\<close> returns the transport's response and error as
  they are and makes no call of \<open>Set\<close>: the cache is in the state the lookup left it in,
  whether or not the request was cacheable.
\<close>

theorem RoundTrip_error_or_304_not_cached:
  assumes "requests w req = Some r"
    and "RoundTrip_lookup E t req r w = (Inr None, w1)"
    and "underlying E t req (r\<lparr>Header := Header_Del (Header r) ''If-None-Match''\<rparr>) = (resp, err)"
    and "err \<noteq> None \<or> (\<exists>rs. resp = Some rs \<and> StatusCode rs = 304)"
  shows "fst (RoundTrip E t req w) = Return resp err
         \<and> cache_writes (events (snd (RoundTrip E t req w))) = cache_writes (events w)
         \<and> store (snd (RoundTrip E t req w)) = store w1
         \<and> events (snd (RoundTrip E t req w)) = events w1 @
             [Transport_RoundTrip req (r\<lparr>Header := Header_Del (Header r) ''If-None-Match''\<rparr>)]"
proof -
  from assms(4)
  have c: "cacheable r \<longrightarrow> err \<noteq> None \<or> resp = None \<or> (\<exists>rs. resp = Some rs \<and> StatusCode rs = 304)"
    by blast
  from assms(4) have n: "\<not> (resp = None \<and> err = None)"
    by auto
  show ?thesis
    using RoundTrip_lookup_cache_writes [OF assms(2)] n
    by (simp add: RoundTrip_miss [OF assms(1,2)] forward_not_cached [OF assms(3) c]
        cache_writes_append)
qed

theorem RoundTrip_error_or_304_not_cached_witness:
  "requests (ex_world ex_empty (ex_request ''GET'' Map.empty)) 0 = Some (ex_request ''GET'' Map.empty)
   \<and> underlying (ex_env ex_unreachable) ex_transport 0 (ex_request ''GET'' Map.empty)
     = (None, Some ''connection refused'')
   \<and> fst (RoundTrip (ex_env ex_unreachable) ex_transport 0
        (ex_world ex_empty (ex_request ''GET'' Map.empty)))
     = Return None (Some ''connection refused'')
   \<and> cache_writes (events (snd (RoundTrip (ex_env ex_unreachable) ex_transport 0
        (ex_world ex_empty (ex_request ''GET'' Map.empty))))) = []
   \<and> store (snd (RoundTrip (ex_env ex_unreachable) ex_transport 0
        (ex_world ex_empty (ex_request ''GET'' Map.empty)))) = ex_empty
   \<and> underlying (ex_env (ex_origin 304 [])) ex_transport 0 (ex_request ''GET'' Map.empty)
     = (Some \<lparr>StatusCode = 304, RespHeader = [''Etag'' \<mapsto> [''abc'']], Body = [],
              Request = Some 0\<rparr>, None)
   \<and> fst (RoundTrip (ex_env (ex_origin 304 [])) ex_transport 0
        (ex_world ex_empty (ex_request ''GET'' Map.empty)))
     = Return (Some \<lparr>StatusCode = 304, RespHeader = [''Etag'' \<mapsto> [''abc'']], Body = [],
                     Request = Some 0\<rparr>) None
   \<and> cache_writes (events (snd (RoundTrip (ex_env (ex_origin 304 [])) ex_transport 0
        (ex_world ex_empty (ex_request ''GET'' Map.empty))))) = []
   \<and> store (snd (RoundTrip (ex_env (ex_origin 304 [])) ex_transport 0
        (ex_world ex_empty (ex_request ''GET'' Map.empty)))) = ex_empty"
proof -
  let ?r = "ex_request ''GET'' Map.empty"
  let ?w = "ex_world ex_empty ?r"
  let ?w1 = "\<lparr>store = ex_empty, requests = [0 \<mapsto> ?r], events = [Cache_Get ''http://x/a'']\<rparr>"
  let ?rs = "\<lparr>StatusCode = 304, RespHeader = [''Etag'' \<mapsto> [''abc'']], Body = [], Request = Some 0\<rparr>"
  have d: "?r\<lparr>Header := Header_Del (Header ?r) ''If-None-Match''\<rparr> = ?r"
    by (simp add: ex_request_def Header_Del_If_None_Match)
  have h1: "requests ?w 0 = Some ?r"
    by (simp add: ex_world_def)
  have h2: "RoundTrip_lookup (ex_env tr) ex_transport 0 ?r ?w = (Inr None, ?w1)" for tr
    by (simp add: ex_miss Header_Get_def)
  have u: "underlying (ex_env ex_unreachable) ex_transport 0 ?r = (None, Some ''connection refused'')"
    by (simp add: ex_defs)
  then have h3: "underlying (ex_env ex_unreachable) ex_transport 0
                   (?r\<lparr>Header := Header_Del (Header ?r) ''If-None-Match''\<rparr>)
                 = (None, Some ''connection refused'')"
    by (simp only: d)
  have h4: "Some ''connection refused'' \<noteq> None \<or> (\<exists>rs. None = Some rs \<and> StatusCode rs = 304)"
    by simp
  have u': "underlying (ex_env (ex_origin 304 [])) ex_transport 0 ?r = (Some ?rs, None)"
    by (simp add: ex_defs)
  then have h3': "underlying (ex_env (ex_origin 304 [])) ex_transport 0
                   (?r\<lparr>Header := Header_Del (Header ?r) ''If-None-Match''\<rparr>)
                 = (Some ?rs, None)"
    by (simp only: d)
  have h4': "None \<noteq> None \<or> (\<exists>rs. Some ?rs = Some rs \<and> StatusCode rs = 304)"
    by simp
  show ?thesis
    using h1 u u' RoundTrip_error_or_304_not_cached [OF h1 h2 h3 h4]
      RoundTrip_error_or_304_not_cached [OF h1 h2 h3' h4']
    by (simp add: ex_world_def)
qed



text \<open>
  C7. For a GET or HEAD request without a \<open>Range\<close> value, when the cache returns bytes
  that fail to deserialize, \<open>lookup\<close> panics with the error of the deserialization, and so
  does \<open>RoundTrip\<close>: the underlying transport is not called.
\<close>

theorem RoundTrip_corrupt_entry_panics:
  assumes "requests w req = Some r"
    and "Method r = ''GET'' \<or> Method r = ''HEAD''"
    and "Header_Get (Header r) ''range'' = []"
    and "Get (Cache t) (cacheKey E r) (store w) = ((b, True), c')"
    and "http_ReadResponse E b r = Inl e"
  shows "fst (lookup E t req r w) = Inl (PanicError e)
         \<and> fst (RoundTrip E t req w) = Panic (PanicError e)
         \<and> forwarded (events (snd (RoundTrip E t req w))) = forwarded (events w)
         \<and> events (snd (RoundTrip E t req w)) = events w @ [Cache_Get (cacheKey E r)]"
  using assms
  by (simp add: RoundTrip_def RoundTrip_lookup_def cacheable_def lookup_def bytesToResp_def
      Let_def forwarded_append)

theorem RoundTrip_corrupt_entry_panics_witness:
  "requests (ex_world (ex_stored ''garbage'') (ex_request ''GET'' Map.empty)) 0
     = Some (ex_request ''GET'' Map.empty)
   \<and> Get (Cache ex_transport) (cacheKey (ex_env (ex_origin 200 ''hello'')) (ex_request ''GET'' Map.empty))
        (store (ex_world (ex_stored ''garbage'') (ex_request ''GET'' Map.empty)))
     = ((''garbage'', True), ex_stored ''garbage'')
   \<and> http_ReadResponse (ex_env (ex_origin 200 ''hello'')) ''garbage'' (ex_request ''GET'' Map.empty)
     = Inl ''malformed HTTP response''
   \<and> fst (RoundTrip (ex_env (ex_origin 200 ''hello'')) ex_transport 0
        (ex_world (ex_stored ''garbage'') (ex_request ''GET'' Map.empty)))
     = Panic (PanicError ''malformed HTTP response'')
   \<and> forwarded (events (snd (RoundTrip (ex_env (ex_origin 200 ''hello'')) ex_transport 0
        (ex_world (ex_stored ''garbage'') (ex_request ''GET'' Map.empty))))) = []"
proof -
  let ?r = "ex_request ''GET'' Map.empty"
  let ?w = "ex_world (ex_stored ''garbage'') ?r"
  let ?E = "ex_env (ex_origin 200 ''hello'')"
  have h1: "requests ?w 0 = Some ?r"
    by (simp add: ex_world_def)
  have h2: "Method ?r = ''GET'' \<or> Method ?r = ''HEAD''"
    by (simp add: ex_request_def)
  have h3: "Header_Get (Header ?r) ''range'' = []"
    by (simp add: Header_Get_range ex_request_def)
  have h4: "Get (Cache ex_transport) (cacheKey ?E ?r) (store ?w) = ((''garbage'', True), ex_stored ''garbage'')"
    by (simp add: ex_defs)
  have h5: "http_ReadResponse ?E ''garbage'' ?r = Inl ''malformed HTTP response''"
    by (simp add: ex_env_def ex_ReadResponse_def ex_wire_def)
  show ?thesis
    using h1 h4 h5 RoundTrip_corrupt_entry_panics [OF h1 h2 h3 h4 h5]
    by (simp add: ex_world_def)
qed

text \<open>
  C8. For a cacheable request that misses the cache and whose forward succeeds with a
  status other than 304, when \<open>DumpResponse\<close> gives bytes, \<open>RoundTrip\<close> makes one call
  of \<open>Set\<close>, of those bytes under the cache key of the request, and returns the result of
  deserializing those bytes for the request (\<open>bytesToResp\<close>), not the transport's
  response.
\<close>

theorem RoundTrip_stores_and_rereads:
  assumes "requests w req = Some r"
    and "cacheable r"
    and "RoundTrip_lookup E t req r w = (Inr None, w1)"
    and "underlying E t req (r\<lparr>Header := Header_Del (Header r) ''If-None-Match''\<rparr>) = (Some rs, None)"
    and "StatusCode rs \<noteq> 304"
    and "httputil_DumpResponse E
           ((requests w)(req \<mapsto> r\<lparr>Header := Header_Del (Header r) ''If-None-Match''\<rparr>)) rs
         = (Inr respBytes, body')"
  shows "fst (RoundTrip E t req w) =
           (case http_ReadResponse E respBytes (r\<lparr>Header := Header_Del (Header r) ''If-None-Match''\<rparr>) of
              Inr resp' \<Rightarrow> Return (Some (resp'\<lparr>Request := Some req\<rparr>)) None
            | Inl e \<Rightarrow> Return None (Some e))
         \<and> cache_writes (events (snd (RoundTrip E t req w))) =
             cache_writes (events w) @
               [(cacheKey E (r\<lparr>Header := Header_Del (Header r) ''If-None-Match''\<rparr>), respBytes)]
         \<and> store (snd (RoundTrip E t req w)) =
             Set (Cache t) (cacheKey E (r\<lparr>Header := Header_Del (Header r) ''If-None-Match''\<rparr>))
               respBytes (store w1)"
  using RoundTrip_lookup_cache_writes [OF assms(3)] RoundTrip_lookup_requests [OF assms(3)]
    assms(2,6)
  by (simp add: RoundTrip_miss [OF assms(1,3)] forward_cached [OF assms(4,5)] Let_def
      cache_writes_append bytesToResp_def split: sum.splits)

theorem RoundTrip_stores_and_rereads_witness:
  "requests (ex_world ex_empty (ex_request ''GET'' Map.empty)) 0 = Some (ex_request ''GET'' Map.empty)
   \<and> cacheable (ex_request ''GET'' Map.empty)
   \<and> underlying (ex_env (ex_origin 200 ''hello'')) ex_transport 0 (ex_request ''GET'' Map.empty)
     = (Some \<lparr>StatusCode = 200, RespHeader = [''Etag'' \<mapsto> [''abc'']], Body = ''hello'',
              Request = Some 0\<rparr>, None)
   \<and> httputil_DumpResponse (ex_env (ex_origin 200 ''hello'')) [0 \<mapsto> ex_request ''GET'' Map.empty]
        \<lparr>StatusCode = 200, RespHeader = [''Etag'' \<mapsto> [''abc'']], Body = ''hello'', Request = Some 0\<rparr>
     = (Inr ex_wire, ''hello'')
   \<and> fst (RoundTrip (ex_env (ex_origin 200 ''hello'')) ex_transport 0
        (ex_world ex_empty (ex_request ''GET'' Map.empty)))
     = Return (Some \<lparr>StatusCode = 200, RespHeader = Map.empty, Body = ''hello'',
                     Request = Some 0\<rparr>) None
   \<and> cache_writes (events (snd (RoundTrip (ex_env (ex_origin 200 ''hello'')) ex_transport 0
        (ex_world ex_empty (ex_request ''GET'' Map.empty))))) = [(''http://x/a'', ex_wire)]
   \<and> store (snd (RoundTrip (ex_env (ex_origin 200 ''hello'')) ex_transport 0
        (ex_world ex_empty (ex_request ''GET'' Map.empty))))
     = MemoryCache_Set 105 ''http://x/a'' ex_wire ex_empty"
proof -
  let ?r = "ex_request ''GET'' Map.empty"
  let ?w = "ex_world ex_empty ?r"
  let ?E = "ex_env (ex_origin 200 ''hello'')"
  let ?w1 = "\<lparr>store = ex_empty, requests = [0 \<mapsto> ?r], events = [Cache_Get ''http://x/a'']\<rparr>"
  let ?rs = "\<lparr>StatusCode = 200, RespHeader = [''Etag'' \<mapsto> [''abc'']], Body = ''hello'',
              Request = Some 0\<rparr>"
  have d: "?r\<lparr>Header := Header_Del (Header ?r) ''If-None-Match''\<rparr> = ?r"
    by (simp add: ex_request_def Header_Del_If_None_Match)
  have h1: "requests ?w 0 = Some ?r"
    by (simp add: ex_world_def)
  have h2: "cacheable ?r"
    by (simp add: cacheable_def Header_Get_range ex_request_def)
  have h3: "RoundTrip_lookup ?E ex_transport 0 ?r ?w = (Inr None, ?w1)"
    by (simp add: ex_miss Header_Get_def)
  have u: "underlying ?E ex_transport 0 ?r = (Some ?rs, None)"
    by (simp add: ex_defs)
  then have h4: "underlying ?E ex_transport 0 (?r\<lparr>Header := Header_Del (Header ?r) ''If-None-Match''\<rparr>)
                 = (Some ?rs, None)"
    by (simp only: d)
  have h5: "StatusCode ?rs \<noteq> 304"
    by simp
  have f: "httputil_DumpResponse ?E [0 \<mapsto> ?r] ?rs = (Inr ex_wire, ''hello'')"
    by (simp add: ex_env_def ex_DumpResponse_def)
  then have h6: "httputil_DumpResponse ?E
       ((requests ?w)(0 \<mapsto> ?r\<lparr>Header := Header_Del (Header ?r) ''If-None-Match''\<rparr>)) ?rs
       = (Inr ex_wire, ''hello'')"
    by (simp add: d ex_world_def)
  have p: "http_ReadResponse ?E ex_wire ?r = Inr ex_parsed" "cacheKey ?E ?r = ''http://x/a''"
    "Set (Cache ex_transport) = MemoryCache_Set 105"
    by (simp_all add: ex_env_def ex_ReadResponse_def ex_request_def ex_transport_def
        NewTransport_def MemoryCache_at_def)
  show ?thesis
    using h1 h2 u f RoundTrip_stores_and_rereads [OF h1 h2 h3 h4 h5 h6]
    by (simp add: d p ex_parsed_def ex_world_def)
qed

end
